theory Spec2Isabelle
  imports Complex_Main
begin

section \<open>JavaScript values\<close>

text \<open>
  The configuration page (\<^verbatim>\<open>getConfigurations\<close>, \<^verbatim>\<open>saveConfig\<close>, \<^verbatim>\<open>applyConfig\<close>,
  \<^verbatim>\<open>normalizeRangeSetting\<close>) works on DOM strings, on numbers produced by
  \<^verbatim>\<open>parseFloat\<close> and on the scalar values of a parsed JSON document.

  Numbers. A finite number is kept as an exact decimal \<open>Fin m e\<close>, standing for
  \<open>m * 10 ^ e\<close>; \<open>NaN\<close> and the two infinities are values of their own. The arithmetic
  is exact: the rounding of IEEE doubles, overflow to \<open>Infinity\<close> and the sign of zero
  are not part of the model, so a comparison that rounding decides (a difference within
  one rounding error of \<open>1e-4\<close>) is decided here by the exact values.

  Strings. A string is a list of code units below 256 (\<^typ>\<open>string\<close>).

  Values. \<open>jsval\<close> has the scalar values that a data attribute, an input or a field of a
  parsed JSON document can hold; arrays and objects as field values are left out.
\<close>

datatype jsnum = NaN | PInf | NInf | Fin int int

datatype jsval = JUndefined | JNull | JBool bool | JNum jsnum | JStr string

definition num_val :: "jsnum \<Rightarrow> real" where
  "num_val x = (case x of Fin m e \<Rightarrow> of_int m * 10 powi e | _ \<Rightarrow> 0)"

definition is_finite :: "jsnum \<Rightarrow> bool" where
  "is_finite x = (case x of Fin m e \<Rightarrow> True | _ \<Rightarrow> False)"

definition isNaN :: "jsnum \<Rightarrow> bool" where
  "isNaN x = (x = NaN)"

definition num_neg :: "jsnum \<Rightarrow> jsnum" where
  "num_neg x = (case x of NaN \<Rightarrow> NaN | PInf \<Rightarrow> NInf | NInf \<Rightarrow> PInf | Fin m e \<Rightarrow> Fin (- m) e)"

text \<open>\<open>scale m e e'\<close> is the mantissa of \<open>m * 10 ^ e\<close> at the smaller exponent \<open>e'\<close>.\<close>

definition scale :: "int \<Rightarrow> int \<Rightarrow> int \<Rightarrow> int" where
  "scale m e e' = m * 10 ^ nat (e - e')"

text \<open>The binary \<^verbatim>\<open>-\<close> on numbers.\<close>

fun num_sub :: "jsnum \<Rightarrow> jsnum \<Rightarrow> jsnum" where
  "num_sub NaN y = NaN"
| "num_sub x NaN = NaN"
| "num_sub PInf PInf = NaN"
| "num_sub NInf NInf = NaN"
| "num_sub PInf y = PInf"
| "num_sub NInf y = NInf"
| "num_sub x PInf = NInf"
| "num_sub x NInf = PInf"
| "num_sub (Fin m1 e1) (Fin m2 e2) =
     Fin (scale m1 e1 (min e1 e2) - scale m2 e2 (min e1 e2)) (min e1 e2)"

text \<open>\<^verbatim>\<open>Math.abs\<close>.\<close>

definition Math_abs :: "jsnum \<Rightarrow> jsnum" where
  "Math_abs x = (case x of NaN \<Rightarrow> NaN | PInf \<Rightarrow> PInf | NInf \<Rightarrow> PInf | Fin m e \<Rightarrow> Fin \<bar>m\<bar> e)"

text \<open>The relational \<^verbatim>\<open><\<close> on numbers: false as soon as one side is \<open>NaN\<close>.\<close>

fun num_lt :: "jsnum \<Rightarrow> jsnum \<Rightarrow> bool" where
  "num_lt NaN y = False"
| "num_lt x NaN = False"
| "num_lt PInf y = False"
| "num_lt x NInf = False"
| "num_lt NInf y = True"
| "num_lt x PInf = True"
| "num_lt (Fin m1 e1) (Fin m2 e2) =
     (scale m1 e1 (min e1 e2) < scale m2 e2 (min e1 e2))"

subsection \<open>Decimal digits\<close>

definition is_digit :: "char \<Rightarrow> bool" where
  "is_digit c = (c \<in> set ''0123456789'')"

definition digit_val :: "char \<Rightarrow> nat" where
  "digit_val c = of_char c - 48"

definition digit_char :: "nat \<Rightarrow> char" where
  "digit_char d = ''0123456789'' ! d"

definition digits_val :: "string \<Rightarrow> nat" where
  "digits_val ds = foldl (\<lambda>a c. 10 * a + digit_val c) 0 ds"

fun digits_of_nat :: "nat \<Rightarrow> string" where
  "digits_of_nat n =
     (if n < 10 then [digit_char n] else digits_of_nat (n div 10) @ [digit_char (n mod 10)])"

declare digits_of_nat.simps [simp del]

subsection \<open>Whitespace and \<^verbatim>\<open>String.prototype.trim\<close>\<close>

text \<open>
  The white space and line terminator code units below 256: TAB, LF, VT, FF, CR, SP and
  NBSP.
\<close>

definition is_ws :: "char \<Rightarrow> bool" where
  "is_ws c = (c \<in> {CHR 0x09, CHR 0x0A, CHR 0x0B, CHR 0x0C, CHR 0x0D, CHR 0x20, CHR 0xA0})"

definition trim :: "string \<Rightarrow> string" where
  "trim s = rev (dropWhile is_ws (rev (dropWhile is_ws s)))"

subsection \<open>\<^verbatim>\<open>Number.prototype.toString\<close>\<close>

text \<open>
  \<open>strip_zeros m\<close> removes the trailing zero digits of a positive mantissa and counts
  them: the digit string \<open>s\<close> of the standard, of least length \<open>k\<close>.
\<close>

definition strip_zeros :: "nat \<Rightarrow> string \<times> nat" where
  "strip_zeros m =
     (let ds = digits_of_nat m;
          z = length (takeWhile (\<lambda>c. c = CHR ''0'') (rev ds))
      in (take (length ds - z) ds, z))"

text \<open>
  The standard's case analysis on \<open>n\<close> (the position of the decimal point) and \<open>k\<close> (the
  number of digits) for a positive number \<open>s * 10 ^ (n - k)\<close>.
\<close>

definition format_digits :: "string \<Rightarrow> int \<Rightarrow> string" where
  "format_digits s n =
     (let k = int (length s) in
      if k \<le> n \<and> n \<le> 21 then s @ replicate (nat (n - k)) CHR ''0''
      else if 0 < n \<and> n \<le> 21 then take (nat n) s @ ''.'' @ drop (nat n) s
      else if - 6 < n \<and> n \<le> 0 then ''0.'' @ replicate (nat (- n)) CHR ''0'' @ s
      else (if k = 1 then s else take 1 s @ ''.'' @ drop 1 s)
           @ ''e'' @ (if 0 < n - 1 then ''+'' else ''-'') @ digits_of_nat (nat \<bar>n - 1\<bar>))"

definition Number_toString :: "jsnum \<Rightarrow> string" where
  "Number_toString x =
     (case x of
        NaN \<Rightarrow> ''NaN''
      | PInf \<Rightarrow> ''Infinity''
      | NInf \<Rightarrow> ''-Infinity''
      | Fin m e \<Rightarrow>
          if m = 0 then ''0''
          else (let (s, z) = strip_zeros (nat \<bar>m\<bar>)
                in (if m < 0 then ''-'' else '''') @ format_digits s (int (length s) + (e + int z))))"

text \<open>\<^verbatim>\<open>String(value)\<close> on the scalar values.\<close>

definition js_String :: "jsval \<Rightarrow> string" where
  "js_String v =
     (case v of
        JUndefined \<Rightarrow> ''undefined''
      | JNull \<Rightarrow> ''null''
      | JBool b \<Rightarrow> (if b then ''true'' else ''false'')
      | JNum x \<Rightarrow> Number_toString x
      | JStr s \<Rightarrow> s)"

subsection \<open>\<^verbatim>\<open>parseFloat\<close>\<close>

text \<open>
  \<^verbatim>\<open>parseFloat\<close> converts its argument to a string, skips leading white space and reads
  the longest prefix that is a decimal literal: an optional sign, then \<^verbatim>\<open>Infinity\<close> or
  digits with an optional fraction and an optional exponent. No such prefix gives \<open>NaN\<close>.
\<close>

definition parse_exponent :: "string \<Rightarrow> int" where
  "parse_exponent r =
     (case r of
        [] \<Rightarrow> 0
      | c # r1 \<Rightarrow>
          if c = CHR ''e'' \<or> c = CHR ''E'' then
            (case r1 of
               [] \<Rightarrow> 0
             | d # r2 \<Rightarrow>
                 if d = CHR ''-'' then - int (digits_val (takeWhile is_digit r2))
                 else if d = CHR ''+'' then int (digits_val (takeWhile is_digit r2))
                 else int (digits_val (takeWhile is_digit r1)))
          else 0)"

definition parse_unsigned :: "string \<Rightarrow> jsnum" where
  "parse_unsigned r =
     (if take 8 r = ''Infinity'' then PInf
      else
        (let ip = takeWhile is_digit r;
             r1 = dropWhile is_digit r;
             dot = (r1 \<noteq> [] \<and> hd r1 = CHR ''.'');
             fp = (if dot then takeWhile is_digit (tl r1) else []);
             r2 = (if dot then dropWhile is_digit (tl r1) else r1)
         in if ip = [] \<and> fp = [] then NaN
            else Fin (int (digits_val (ip @ fp))) (parse_exponent r2 - int (length fp))))"

definition parseFloat_string :: "string \<Rightarrow> jsnum" where
  "parseFloat_string s =
     (case dropWhile is_ws s of
        [] \<Rightarrow> NaN
      | c # r \<Rightarrow>
          if c = CHR ''-'' then num_neg (parse_unsigned r)
          else if c = CHR ''+'' then parse_unsigned r
          else parse_unsigned (c # r))"

definition parseFloat :: "jsval \<Rightarrow> jsnum" where
  "parseFloat v = parseFloat_string (js_String v)"

subsection \<open>Strict equality and truthiness\<close>

fun num_eq :: "jsnum \<Rightarrow> jsnum \<Rightarrow> bool" where
  "num_eq (Fin m1 e1) (Fin m2 e2) = (scale m1 e1 (min e1 e2) = scale m2 e2 (min e1 e2))"
| "num_eq PInf PInf = True"
| "num_eq NInf NInf = True"
| "num_eq x y = False"

text \<open>\<^verbatim>\<open>===\<close>: numbers are compared by value and \<open>NaN\<close> equals nothing.\<close>

fun strict_eq :: "jsval \<Rightarrow> jsval \<Rightarrow> bool" where
  "strict_eq (JNum x) (JNum y) = num_eq x y"
| "strict_eq a b = (a = b)"

definition truthy :: "jsval \<Rightarrow> bool" where
  "truthy v =
     (case v of
        JUndefined \<Rightarrow> False
      | JNull \<Rightarrow> False
      | JBool b \<Rightarrow> b
      | JNum x \<Rightarrow> (case x of NaN \<Rightarrow> False | Fin m e \<Rightarrow> m \<noteq> 0 | _ \<Rightarrow> True)
      | JStr s \<Rightarrow> s \<noteq> [])"

section \<open>The data of the configuration page\<close>

text \<open>
  A row of \<^verbatim>\<open>#config-table\<close>: the three data attributes of \<^verbatim>\<open>row.dataset\<close> (a
  data attribute that the element does not carry reads as \<^verbatim>\<open>undefined\<close>, here \<open>None\<close>)
  and the current values of its three inputs \<^verbatim>\<open>.range-input\<close>, \<^verbatim>\<open>.reference-input\<close>
  and \<^verbatim>\<open>.tolerance-input\<close>. Every row carries the three inputs: \<^verbatim>\<open>getConfigurations\<close>
  dereferences them without a check, so the \<^verbatim>\<open>&& rangeInput\<close> guards of
  \<^verbatim>\<open>applyConfig\<close> are true on such rows. The value sanitization that an input applies
  according to its \<^verbatim>\<open>type\<close> attribute belongs to the page template and is not part of
  the model.
\<close>

record row =
  testValue :: "string option"
  rangeSetting :: "string option"
  ioType :: "string option"
  rangeInput :: string
  referenceInput :: string
  toleranceInput :: string

definition attr :: "string option \<Rightarrow> jsval" where
  "attr a = (case a of None \<Rightarrow> JUndefined | Some s \<Rightarrow> JStr s)"

text \<open>The object that \<^verbatim>\<open>getConfigurations\<close> pushes for a row.\<close>

record config =
  test_value :: jsnum
  range_setting :: "string option"
  io_type :: "string option"
  range_input :: string
  reference :: jsnum
  tolerance :: jsnum

text \<open>
  An entry of the \<^verbatim>\<open>configurations\<close> array of a configuration document, as
  \<^verbatim>\<open>saveConfig\<close> builds it and as \<^verbatim>\<open>applyConfig\<close> reads it from a parsed JSON file.
  A key that the object does not have reads as \<open>JUndefined\<close>.
\<close>

record json_config =
  json_test_value :: jsval
  json_range_setting :: jsval
  json_io_type :: jsval
  json_range_input :: jsval
  json_reference :: jsval
  json_tolerance :: jsval

text \<open>
  The document \<^verbatim>\<open>configData\<close>: its unit and its array of entries;
  \<open>configurations = None\<close> when the key is absent (or \<^verbatim>\<open>null\<close>).
\<close>

record config_data =
  unit :: jsval
  configurations :: "json_config list option"

text \<open>
  The two errors thrown by \<^verbatim>\<open>getConfigurations\<close>, each with the test value and the
  unit (\<^verbatim>\<open>filesInfo.unit\<close>) that its message interpolates.
\<close>

datatype error = InvalidValues jsnum jsval | TolerancePositive jsnum jsval

definition error_message :: "error \<Rightarrow> string" where
  "error_message e =
     (case e of
        InvalidValues tv u \<Rightarrow>
          ''Invalid values for test point '' @ Number_toString tv @ '' '' @ js_String u
      | TolerancePositive tv u \<Rightarrow>
          ''Tolerance must be positive for test point '' @ Number_toString tv @ '' '' @ js_String u)"

section \<open>\<^verbatim>\<open>normalizeRangeSetting\<close>\<close>

definition normalizeRangeSetting :: "jsval \<Rightarrow> string" where
  "normalizeRangeSetting v =
     (if v = JNull \<or> v = JUndefined \<or> v = JStr ''None'' \<or> v = JStr ''null'' then ''N/A''
      else trim (js_String v))"

section \<open>\<^verbatim>\<open>getConfigurations\<close>\<close>

text \<open>The body of the \<^verbatim>\<open>rows.forEach\<close> callback: it throws or yields the pushed object.\<close>

definition getConfigurations_row :: "jsval \<Rightarrow> row \<Rightarrow> error + config" where
  "getConfigurations_row u r =
     (let tv = parseFloat (attr (testValue r));
          rs = rangeSetting r;
          io = ioType r;
          ri = trim (rangeInput r);
          ref = parseFloat (JStr (referenceInput r));
          tol = parseFloat (JStr (toleranceInput r))
      in if isNaN ref \<or> isNaN tol then Inl (InvalidValues tv u)
         else if num_lt tol (Fin 0 0) then Inl (TolerancePositive tv u)
         else Inr \<lparr>test_value = tv, range_setting = rs, io_type = io,
                   range_input = (if ri = [] then ''N/A'' else ri),
                   reference = ref, tolerance = tol\<rparr>)"

text \<open>The loop, with the array \<^verbatim>\<open>configs\<close> built so far; a throw ends it.\<close>

fun getConfigurations_loop :: "jsval \<Rightarrow> row list \<Rightarrow> config list \<Rightarrow> error + config list" where
  "getConfigurations_loop u [] configs = Inr configs"
| "getConfigurations_loop u (r # rows) configs =
     (case getConfigurations_row u r of
        Inl e \<Rightarrow> Inl e
      | Inr c \<Rightarrow> getConfigurations_loop u rows (configs @ [c]))"

definition getConfigurations :: "jsval \<Rightarrow> row list \<Rightarrow> error + config list" where
  "getConfigurations u rows = getConfigurations_loop u rows []"

section \<open>\<^verbatim>\<open>saveConfig\<close>\<close>

text \<open>The arrow function of \<^verbatim>\<open>configs.map\<close>.\<close>

definition save_entry :: "config \<Rightarrow> json_config" where
  "save_entry c =
     \<lparr>json_test_value = JNum (test_value c),
      json_range_setting = (if range_setting c = Some ''N/A'' then JNull else attr (range_setting c)),
      json_io_type = attr (io_type c),
      json_range_input = JStr (range_input c),
      json_reference = JStr (Number_toString (reference c)),
      json_tolerance = JStr (Number_toString (tolerance c))\<rparr>"

text \<open>
  \<^verbatim>\<open>saveConfig\<close> up to the document \<^verbatim>\<open>configData\<close> that it posts and offers for
  download; an error of \<^verbatim>\<open>getConfigurations\<close> is caught and shown, and nothing is sent.
\<close>

definition saveConfig :: "jsval \<Rightarrow> row list \<Rightarrow> error + config_data" where
  "saveConfig u rows =
     (case getConfigurations u rows of
        Inl e \<Rightarrow> Inl e
      | Inr configs \<Rightarrow> Inr \<lparr>unit = u, configurations = Some (map save_entry configs)\<rparr>)"

text \<open>
  Modelled from the spec: the transport between \<^verbatim>\<open>saveConfig\<close> and \<^verbatim>\<open>applyConfig\<close>
  (\<^verbatim>\<open>/api/save-config\<close>, the downloaded file, \<^verbatim>\<open>/api/load-config\<close>) is not in the
  sources. The document travels as JSON text: \<^verbatim>\<open>JSON.stringify\<close> writes \<open>NaN\<close> and the
  infinities as \<^verbatim>\<open>null\<close> and leaves out a key whose value is \<^verbatim>\<open>undefined\<close>; every
  other scalar is read back as it was written.
\<close>

definition json_value :: "jsval \<Rightarrow> jsval" where
  "json_value v = (case v of JNum x \<Rightarrow> (if is_finite x then JNum x else JNull) | _ \<Rightarrow> v)"

definition json_entry :: "json_config \<Rightarrow> json_config" where
  "json_entry c =
     \<lparr>json_test_value = json_value (json_test_value c),
      json_range_setting = json_value (json_range_setting c),
      json_io_type = json_value (json_io_type c),
      json_range_input = json_value (json_range_input c),
      json_reference = json_value (json_reference c),
      json_tolerance = json_value (json_tolerance c)\<rparr>"


section \<open>\<^verbatim>\<open>applyConfig\<close>\<close>

text \<open>The three comparisons of the inner callback, for an entry and a row.\<close>

definition testValueMatch :: "json_config \<Rightarrow> row \<Rightarrow> bool" where
  "testValueMatch c r =
     num_lt (Math_abs (num_sub (parseFloat (attr (testValue r))) (parseFloat (json_test_value c))))
       (Fin 1 (- 4))"

definition rangeMatch :: "json_config \<Rightarrow> row \<Rightarrow> bool" where
  "rangeMatch c r =
     (normalizeRangeSetting (attr (rangeSetting r)) = normalizeRangeSetting (json_range_setting c))"

definition ioTypeMatch :: "json_config \<Rightarrow> row \<Rightarrow> bool" where
  "ioTypeMatch c r = strict_eq (attr (ioType r)) (json_io_type c)"

text \<open>The condition \<^verbatim>\<open>testValueMatch && rangeMatch && ioTypeMatch\<close>.\<close>

definition matches :: "json_config \<Rightarrow> row \<Rightarrow> bool" where
  "matches c r = (testValueMatch c r \<and> rangeMatch c r \<and> ioTypeMatch c r)"

text \<open>
  Assigning to \<^verbatim>\<open>input.value\<close>: the value is converted to a string, \<^verbatim>\<open>null\<close> to the
  empty string.
\<close>

definition set_value :: "jsval \<Rightarrow> string" where
  "set_value v = (case v of JNull \<Rightarrow> [] | _ \<Rightarrow> js_String v)"

text \<open>The three guarded assignments of a matching row.\<close>

definition apply_fields :: "json_config \<Rightarrow> row \<Rightarrow> row" where
  "apply_fields c r =
     r\<lparr>rangeInput :=
          (if json_range_input c \<noteq> JUndefined then set_value (json_range_input c) else rangeInput r),
       referenceInput :=
          (if json_reference c \<noteq> JUndefined then set_value (json_reference c) else referenceInput r),
       toleranceInput :=
          (if json_tolerance c \<noteq> JUndefined then set_value (json_tolerance c) else toleranceInput r)\<rparr>"

text \<open>The inner \<^verbatim>\<open>rows.forEach\<close> for one entry, threading \<^verbatim>\<open>loadedCount\<close>.\<close>

fun applyConfig_rows :: "json_config \<Rightarrow> row list \<Rightarrow> nat \<Rightarrow> row list \<times> nat" where
  "applyConfig_rows c [] loadedCount = ([], loadedCount)"
| "applyConfig_rows c (r # rows) loadedCount =
     (if matches c r
      then (let (rows', n) = applyConfig_rows c rows (loadedCount + 1)
            in (apply_fields c r # rows', n))
      else (let (rows', n) = applyConfig_rows c rows loadedCount
            in (r # rows', n)))"

text \<open>The outer \<^verbatim>\<open>configurations.forEach\<close>.\<close>

fun applyConfig_configs :: "json_config list \<Rightarrow> row list \<Rightarrow> nat \<Rightarrow> row list \<times> nat" where
  "applyConfig_configs [] rows loadedCount = (rows, loadedCount)"
| "applyConfig_configs (c # cs) rows loadedCount =
     (let (rows', n) = applyConfig_rows c rows loadedCount
      in applyConfig_configs cs rows' n)"

text \<open>
  The merge proper, from \<^verbatim>\<open>const configurations = configData.configurations || []\<close> to
  the logged count.
\<close>

definition merge :: "config_data \<Rightarrow> row list \<Rightarrow> row list \<times> nat" where
  "merge d rows =
     applyConfig_configs (case configurations d of None \<Rightarrow> [] | Some cs \<Rightarrow> cs) rows 0"

text \<open>
  \<^verbatim>\<open>applyConfig\<close>: \<open>u\<close> is \<^verbatim>\<open>filesInfo.unit\<close> and \<open>ok\<close> the answer to the \<^verbatim>\<open>confirm\<close>
  dialog. Declining leaves the rows as they are and logs no count.
\<close>

definition applyConfig :: "jsval \<Rightarrow> bool \<Rightarrow> config_data \<Rightarrow> row list \<Rightarrow> row list \<times> nat option" where
  "applyConfig u ok d rows =
     (if truthy (unit d) \<and> \<not> strict_eq (unit d) u \<and> \<not> ok then (rows, None)
      else (let (rows', n) = merge d rows in (rows', Some n)))"

section \<open>Notions used in the statements\<close>

text \<open>
  What one entry does to one row, what a list of entries does to one row (in the order
  of the list), and the list of the pairs of an entry and a row that match.
\<close>

definition apply_entry :: "json_config \<Rightarrow> row \<Rightarrow> row" where
  "apply_entry c r = (if matches c r then apply_fields c r else r)"

definition merge_row :: "json_config list \<Rightarrow> row \<Rightarrow> row" where
  "merge_row cs r = foldl (\<lambda>r c. apply_entry c r) r cs"

definition match_pairs :: "json_config list \<Rightarrow> row list \<Rightarrow> (json_config \<times> row) list" where
  "match_pairs cs rows = filter (\<lambda>(c, r). matches c r) (List.product cs rows)"

text \<open>The row and the entry of the scenario in the specification's testable properties.\<close>

definition row_V10 :: row where
  "row_V10 = \<lparr>testValue = Some ''10'', rangeSetting = Some ''N/A'', ioType = Some ''V'',
     rangeInput = '''', referenceInput = ''0'', toleranceInput = ''0.1''\<rparr>"

definition cfg_V10 :: json_config where
  "cfg_V10 = \<lparr>json_test_value = JNum (Fin 1000003 (- 5)), json_range_setting = JNull,
     json_io_type = JStr ''V'', json_range_input = JUndefined,
     json_reference = JStr ''5'', json_tolerance = JStr ''0.2''\<rparr>"

text \<open>
  A row passes the two checks of \<^verbatim>\<open>getConfigurations\<close> when its reference and its
  tolerance parse as numbers and the tolerance is not below zero; \<open>extract_row\<close> is the
  object pushed for such a row and \<open>row_error\<close> the error thrown for any other.
\<close>

definition valid_row :: "row \<Rightarrow> bool" where
  "valid_row r =
     (\<not> isNaN (parseFloat (JStr (referenceInput r)))
      \<and> \<not> isNaN (parseFloat (JStr (toleranceInput r)))
      \<and> \<not> num_lt (parseFloat (JStr (toleranceInput r))) (Fin 0 0))"

definition extract_row :: "row \<Rightarrow> config" where
  "extract_row r =
     \<lparr>test_value = parseFloat (attr (testValue r)),
      range_setting = rangeSetting r,
      io_type = ioType r,
      range_input = (if trim (rangeInput r) = [] then ''N/A'' else trim (rangeInput r)),
      reference = parseFloat (JStr (referenceInput r)),
      tolerance = parseFloat (JStr (toleranceInput r))\<rparr>"

definition row_error :: "jsval \<Rightarrow> row \<Rightarrow> error" where
  "row_error u r =
     (if isNaN (parseFloat (JStr (referenceInput r))) \<or> isNaN (parseFloat (JStr (toleranceInput r)))
      then InvalidValues (parseFloat (attr (testValue r))) u
      else TolerancePositive (parseFloat (attr (testValue r))) u)"





section \<open>\<^verbatim>\<open>applyConfig\<close> on any loaded document\<close>








lemmas parse_defs = parseFloat_def js_String_def parseFloat_string_def parse_unsigned_def
  is_ws_def is_digit_def digits_val_def digit_val_def parse_exponent_def num_neg_def attr_def

lemmas show_defs = Number_toString_def strip_zeros_def format_digits_def digits_of_nat.simps
  digit_char_def

lemmas match_defs = matches_def testValueMatch_def rangeMatch_def ioTypeMatch_def
  normalizeRangeSetting_def trim_def Math_abs_def scale_def

section \<open>Properties of the string functions\<close>

lemma rev_split: "t = rev (dropWhile P (rev t)) @ rev (takeWhile P (rev t))"
proof -
  have "rev (takeWhile P (rev t) @ dropWhile P (rev t)) = rev (rev t)"
    by (simp only: takeWhile_dropWhile_id)
  then show ?thesis by (simp only: rev_append rev_rev_ident)
qed

lemma trim_decomp:
  "\<exists>l r. s = l @ trim s @ r \<and> list_all is_ws l \<and> list_all is_ws r"
proof -
  let ?t = "dropWhile is_ws s"
  have a: "s = takeWhile is_ws s @ ?t" by simp
  have b: "?t = trim s @ rev (takeWhile is_ws (rev ?t))"
    unfolding trim_def by (rule rev_split)
  have c: "list_all is_ws (takeWhile is_ws s)"
    by (simp add: list_all_iff) (meson set_takeWhileD)
  have d: "list_all is_ws (rev (takeWhile is_ws (rev ?t)))"
    by (simp add: list_all_iff) (meson set_takeWhileD)
  from a b have "s = takeWhile is_ws s @ trim s @ rev (takeWhile is_ws (rev ?t))" by simp
  with c d show ?thesis by blast
qed

lemma trim_last: "trim s \<noteq> [] \<Longrightarrow> \<not> is_ws (last (trim s))"
  by (simp add: trim_def last_rev hd_dropWhile)

lemma trim_hd: "trim s \<noteq> [] \<Longrightarrow> \<not> is_ws (hd (trim s))"
proof -
  assume ne: "trim s \<noteq> []"
  let ?t = "dropWhile is_ws s"
  have b: "?t = trim s @ rev (takeWhile is_ws (rev ?t))"
    unfolding trim_def by (rule rev_split)
  with ne have "hd ?t = hd (trim s)" by (metis hd_append2)
  moreover from b ne have "?t \<noteq> []" by (metis append_is_Nil_conv)
  then have "\<not> is_ws (hd ?t)" by (rule hd_dropWhile)
  ultimately show ?thesis by simp
qed

text \<open>
  C5. \<^verbatim>\<open>normalizeRangeSetting\<close> returns a string for every value: the sentinel \<open>N/A\<close>
  for \<^verbatim>\<open>null\<close>, \<^verbatim>\<open>undefined\<close> and the strings \<open>None\<close> and \<open>null\<close>, and for
  every other value its string conversion without the leading and trailing white space:
  what is cut off on both sides is white space only, and what is left neither starts
  nor ends with white space. In particular \<open>"  Range1  "\<close> becomes \<open>"Range1"\<close>.
\<close>

theorem normalizeRangeSetting_spec:
  "normalizeRangeSetting v =
     (if v = JNull \<or> v = JUndefined \<or> v = JStr ''None'' \<or> v = JStr ''null'' then ''N/A''
      else trim (js_String v))
   \<and> (\<exists>l r. js_String v = l @ trim (js_String v) @ r \<and> list_all is_ws l \<and> list_all is_ws r)
   \<and> (if trim (js_String v) = [] then True
       else \<not> is_ws (hd (trim (js_String v))) \<and> \<not> is_ws (last (trim (js_String v))))
   \<and> normalizeRangeSetting (JStr ''  Range1  '') = ''Range1''"
  using trim_decomp [of "js_String v"] trim_hd [of "js_String v"] trim_last [of "js_String v"]
  by (simp add: normalizeRangeSetting_def js_String_def trim_def is_ws_def)

theorem normalizeRangeSetting_spec_witness:
  "normalizeRangeSetting JNull = ''N/A'' \<and> normalizeRangeSetting JUndefined = ''N/A''
   \<and> normalizeRangeSetting (JStr ''None'') = ''N/A'' \<and> normalizeRangeSetting (JStr ''null'') = ''N/A''
   \<and> normalizeRangeSetting (JNum (Fin 50 (- 1))) = ''5''
   \<and> normalizeRangeSetting (JStr '' None '') = ''None''"
  using normalizeRangeSetting_spec [of JNull] normalizeRangeSetting_spec [of JUndefined]
    normalizeRangeSetting_spec [of "JStr ''None''"] normalizeRangeSetting_spec [of "JStr ''null''"]
    normalizeRangeSetting_spec [of "JNum (Fin 50 (- 1))"]
    normalizeRangeSetting_spec [of "JStr '' None ''"]
  by (simp add: js_String_def trim_def is_ws_def show_defs)

section \<open>Properties of the number model\<close>


lemma num_val_Fin: "num_val (Fin m e) = real_of_int m * 10 powi e"
  by (simp add: num_val_def)


lemma num_val_abs: "num_val (Math_abs (Fin m e)) = \<bar>num_val (Fin m e)\<bar>"
  by (simp add: Math_abs_def num_val_Fin abs_mult)






lemma matches_apply_fields: "matches c (apply_fields c' r) = matches c r"
  by (simp add: matches_def testValueMatch_def rangeMatch_def ioTypeMatch_def apply_fields_def)

lemma matches_apply_entry: "matches c (apply_entry c' r) = matches c r"
  by (simp add: apply_entry_def matches_apply_fields)


lemma applyConfig_rows_eq:
  "applyConfig_rows c rows n = (map (apply_entry c) rows, n + length (filter (matches c) rows))"
  by (induction rows arbitrary: n) (simp_all add: apply_entry_def)

lemma match_pairs_Cons:
  "length (match_pairs (c # cs) rows) = length (filter (matches c) rows) + length (match_pairs cs rows)"
  by (simp add: match_pairs_def filter_map comp_def)

lemma match_pairs_map:
  "length (match_pairs cs (map (apply_entry c) rows)) = length (match_pairs cs rows)"
proof (induction cs)
  case Nil
  show ?case by (simp add: match_pairs_def)
next
  case (Cons d ds)
  have "length (filter (matches d) (map (apply_entry c) rows)) = length (filter (matches d) rows)"
    by (simp add: filter_map comp_def matches_apply_entry)
  with Cons show ?case by (simp only: match_pairs_Cons)
qed

lemma applyConfig_configs_eq:
  "applyConfig_configs cs rows n = (map (merge_row cs) rows, n + length (match_pairs cs rows))"
proof (induction cs arbitrary: rows n)
  case Nil
  show ?case by (simp add: merge_row_def match_pairs_def)
next
  case (Cons c cs)
  have "map (merge_row cs) (map (apply_entry c) rows) = map (merge_row (c # cs)) rows"
    by (simp add: merge_row_def)
  then show ?case
    by (simp add: applyConfig_rows_eq Cons match_pairs_Cons match_pairs_map)
qed

section \<open>Properties of the merge\<close>

lemma merge_eq:
  "merge d rows =
     (map (merge_row (case configurations d of None \<Rightarrow> [] | Some cs \<Rightarrow> cs)) rows,
      length (match_pairs (case configurations d of None \<Rightarrow> [] | Some cs \<Rightarrow> cs) rows))"
  by (simp add: merge_def applyConfig_configs_eq)

lemma merge_row_dataset:
  "testValue (merge_row cs r) = testValue r \<and> rangeSetting (merge_row cs r) = rangeSetting r
   \<and> ioType (merge_row cs r) = ioType r"
  unfolding merge_row_def
  by (induction cs arbitrary: r) (simp_all add: apply_entry_def apply_fields_def)

lemma merge_row_no_match: "\<forall>c\<in>set cs. \<not> matches c r \<Longrightarrow> merge_row cs r = r"
  unfolding merge_row_def
  by (induction cs arbitrary: r) (simp_all add: apply_entry_def)





section \<open>The match key\<close>



section \<open>Every entry against every row\<close>

text \<open>
  C2. The merge, as a function of the entries and the rows: every row is taken through
  all the entries in order and receives the fields of each entry that matches it (not
  only the first matching row of an entry is updated), and the count is the number of
  pairs of an entry and a row that match. Two rows that both match an entry both receive
  its fields, and the count for that entry is 2.
\<close>

theorem merge_counts_pairs:
  "merge d rows =
     (map (merge_row (case configurations d of None \<Rightarrow> [] | Some cs \<Rightarrow> cs)) rows,
      length (match_pairs (case configurations d of None \<Rightarrow> [] | Some cs \<Rightarrow> cs) rows))
   \<and> applyConfig_rows c rows n =
       (map (apply_entry c) rows, n + length (filter (matches c) rows))
   \<and> (matches c ra \<and> matches c rb \<longrightarrow>
        merge \<lparr>unit = u, configurations = Some [c]\<rparr> [ra, rb] =
          ([apply_fields c ra, apply_fields c rb], 2))"
  using merge_eq [of d rows] applyConfig_rows_eq [of c rows n]
  by (simp add: merge_def)

theorem merge_counts_pairs_witness:
  "merge \<lparr>unit = JStr ''V'', configurations = Some [cfg_V10]\<rparr>
     [row_V10, row_V10\<lparr>referenceInput := ''7''\<rparr>] =
     ([row_V10\<lparr>referenceInput := ''5'', toleranceInput := ''0.2''\<rparr>,
       row_V10\<lparr>referenceInput := ''5'', toleranceInput := ''0.2''\<rparr>], 2)"
proof -
  have a: "matches cfg_V10 row_V10"
    by (simp add: cfg_V10_def row_V10_def match_defs parse_defs show_defs)
  have b: "matches cfg_V10 (row_V10\<lparr>referenceInput := ''7''\<rparr>)"
    by (simp add: cfg_V10_def row_V10_def match_defs parse_defs show_defs)
  from merge_counts_pairs [where c = cfg_V10 and ra = row_V10
      and rb = "row_V10\<lparr>referenceInput := ''7''\<rparr>" and u = "JStr ''V''"
      and d = "\<lparr>unit = JStr ''V'', configurations = None\<rparr>" and rows = "[]" and n = 0]
  have "matches cfg_V10 row_V10 \<and> matches cfg_V10 (row_V10\<lparr>referenceInput := ''7''\<rparr>) \<longrightarrow>
        merge \<lparr>unit = JStr ''V'', configurations = Some [cfg_V10]\<rparr>
          [row_V10, row_V10\<lparr>referenceInput := ''7''\<rparr>] =
          ([apply_fields cfg_V10 row_V10,
            apply_fields cfg_V10 (row_V10\<lparr>referenceInput := ''7''\<rparr>)], 2)"
    by blast
  with a b have "merge \<lparr>unit = JStr ''V'', configurations = Some [cfg_V10]\<rparr>
          [row_V10, row_V10\<lparr>referenceInput := ''7''\<rparr>] =
          ([apply_fields cfg_V10 row_V10,
            apply_fields cfg_V10 (row_V10\<lparr>referenceInput := ''7''\<rparr>)], 2)"
    by blast
  then show ?thesis
    by (simp add: apply_fields_def set_value_def js_String_def cfg_V10_def row_V10_def)
qed

text \<open>
  C3. \<^verbatim>\<open>applyConfig\<close> returns as many rows as it was given, in place; the three data
  attributes of every row (test value, range setting, I/O type) are what they were, so
  only the three inputs can differ; and a row that no entry matches is the same row.
\<close>

lemma applyConfig_rows_cases:
  "fst (applyConfig u ok d rows) = rows \<or>
   fst (applyConfig u ok d rows) =
     map (merge_row (case configurations d of None \<Rightarrow> [] | Some cs \<Rightarrow> cs)) rows"
  by (simp add: applyConfig_def merge_eq)

theorem applyConfig_frame:
  "length (fst (applyConfig u ok d rows)) = length rows
   \<and> (\<forall>i<length rows.
        testValue (fst (applyConfig u ok d rows) ! i) = testValue (rows ! i)
        \<and> rangeSetting (fst (applyConfig u ok d rows) ! i) = rangeSetting (rows ! i)
        \<and> ioType (fst (applyConfig u ok d rows) ! i) = ioType (rows ! i)
        \<and> ((\<forall>c\<in>set (case configurations d of None \<Rightarrow> [] | Some cs \<Rightarrow> cs).
               \<not> matches c (rows ! i))
             \<longrightarrow> fst (applyConfig u ok d rows) ! i = rows ! i))"
  using applyConfig_rows_cases [of u ok d rows]
  by (auto simp: merge_row_dataset merge_row_no_match)

theorem applyConfig_frame_witness:
  "fst (applyConfig (JStr ''V'') True \<lparr>unit = JStr ''V'', configurations = Some [cfg_V10]\<rparr>
     [row_V10, row_V10\<lparr>ioType := Some ''A''\<rparr>]) ! 1 = row_V10\<lparr>ioType := Some ''A''\<rparr>
   \<and> testValue (fst (applyConfig (JStr ''V'') True \<lparr>unit = JStr ''V'', configurations = Some [cfg_V10]\<rparr>
     [row_V10, row_V10\<lparr>ioType := Some ''A''\<rparr>]) ! 1) = Some ''10''"
proof -
  let ?d = "\<lparr>unit = JStr ''V'', configurations = Some [cfg_V10]\<rparr>"
  let ?rows = "[row_V10, row_V10\<lparr>ioType := Some ''A''\<rparr>]"
  have b: "\<not> matches cfg_V10 (row_V10\<lparr>ioType := Some ''A''\<rparr>)"
    by (simp add: cfg_V10_def row_V10_def match_defs parse_defs show_defs)
  have "(1::nat) < length ?rows" by simp
  with applyConfig_frame [of "JStr ''V''" True ?d ?rows]
  have "testValue (fst (applyConfig (JStr ''V'') True ?d ?rows) ! 1) = testValue (?rows ! 1)
      \<and> ((\<forall>c\<in>set (case configurations ?d of None \<Rightarrow> [] | Some cs \<Rightarrow> cs). \<not> matches c (?rows ! 1))
           \<longrightarrow> fst (applyConfig (JStr ''V'') True ?d ?rows) ! 1 = ?rows ! 1)"
    by blast
  with b show ?thesis by (simp add: row_V10_def)
qed

section \<open>Fields without a value\<close>

text \<open>
  C9. In a row that matches the entry, each of the three inputs keeps its value when the
  entry's field is \<^verbatim>\<open>undefined\<close> and is assigned the entry's field otherwise:
  \<^verbatim>\<open>null\<close> is assigned (the input then holds the empty string), and so are the empty
  string and every other defined value.
\<close>

theorem undefined_field_keeps_value:
  "(i < length rows \<and> matches c (rows ! i) \<longrightarrow>
      rangeInput (fst (applyConfig_rows c rows n) ! i) =
        (if json_range_input c = JUndefined then rangeInput (rows ! i)
         else set_value (json_range_input c))
      \<and> referenceInput (fst (applyConfig_rows c rows n) ! i) =
        (if json_reference c = JUndefined then referenceInput (rows ! i)
         else set_value (json_reference c))
      \<and> toleranceInput (fst (applyConfig_rows c rows n) ! i) =
        (if json_tolerance c = JUndefined then toleranceInput (rows ! i)
         else set_value (json_tolerance c)))
   \<and> set_value JNull = [] \<and> set_value (JStr s) = s
   \<and> set_value (JNum x) = Number_toString x
   \<and> set_value (JBool b) = (if b then ''true'' else ''false'')"
  by (simp add: applyConfig_rows_eq apply_entry_def apply_fields_def set_value_def js_String_def)

theorem undefined_field_keeps_value_witness:
  "fst (applyConfig_rows (cfg_V10\<lparr>json_reference := JNull, json_tolerance := JStr []\<rparr>)
          [row_V10\<lparr>rangeInput := ''x''\<rparr>] 0) ! 0
     = row_V10\<lparr>rangeInput := ''x'', referenceInput := [], toleranceInput := []\<rparr>"
proof -
  let ?c = "cfg_V10\<lparr>json_reference := JNull, json_tolerance := JStr []\<rparr>"
  let ?rows = "[row_V10\<lparr>rangeInput := ''x''\<rparr>]"
  have m: "0 < length ?rows \<and> matches ?c (?rows ! 0)"
    by (simp add: cfg_V10_def row_V10_def match_defs parse_defs show_defs)
  from undefined_field_keeps_value [of 0 ?rows ?c 0]
  have "0 < length ?rows \<and> matches ?c (?rows ! 0) \<longrightarrow>
      rangeInput (fst (applyConfig_rows ?c ?rows 0) ! 0) =
        (if json_range_input ?c = JUndefined then rangeInput (?rows ! 0)
         else set_value (json_range_input ?c))
      \<and> referenceInput (fst (applyConfig_rows ?c ?rows 0) ! 0) =
        (if json_reference ?c = JUndefined then referenceInput (?rows ! 0)
         else set_value (json_reference ?c))
      \<and> toleranceInput (fst (applyConfig_rows ?c ?rows 0) ! 0) =
        (if json_tolerance ?c = JUndefined then toleranceInput (?rows ! 0)
         else set_value (json_tolerance ?c))"
    by blast
  with m have f: "rangeInput (fst (applyConfig_rows ?c ?rows 0) ! 0) = ''x''
      \<and> referenceInput (fst (applyConfig_rows ?c ?rows 0) ! 0) = []
      \<and> toleranceInput (fst (applyConfig_rows ?c ?rows 0) ! 0) = []"
    by (simp add: cfg_V10_def row_V10_def set_value_def js_String_def)
  have g: "testValue (fst (applyConfig_rows ?c ?rows 0) ! 0) = Some ''10''
      \<and> rangeSetting (fst (applyConfig_rows ?c ?rows 0) ! 0) = Some ''N/A''
      \<and> ioType (fst (applyConfig_rows ?c ?rows 0) ! 0) = Some ''V''"
    by (simp add: applyConfig_rows_eq apply_entry_def apply_fields_def row_V10_def)
  from f g show ?thesis by (simp add: row_V10_def)
qed

section \<open>Properties of the extraction\<close>

lemma getConfigurations_row_eq:
  "getConfigurations_row u r = (if valid_row r then Inr (extract_row r) else Inl (row_error u r))"
  by (simp add: getConfigurations_row_def valid_row_def extract_row_def row_error_def Let_def)

lemma getConfigurations_loop_valid:
  "\<forall>r\<in>set rows. valid_row r \<Longrightarrow>
     getConfigurations_loop u rows acc = Inr (acc @ map extract_row rows)"
  by (induction rows arbitrary: acc) (simp_all add: getConfigurations_row_eq)

lemma getConfigurations_loop_invalid:
  "\<forall>x\<in>set pre. valid_row x \<Longrightarrow> \<not> valid_row r \<Longrightarrow>
     getConfigurations_loop u (pre @ r # post) acc = Inl (row_error u r)"
  by (induction pre arbitrary: acc) (simp_all add: getConfigurations_row_eq)

lemma getConfigurations_valid:
  "\<forall>r\<in>set rows. valid_row r \<Longrightarrow> getConfigurations u rows = Inr (map extract_row rows)"
  by (simp add: getConfigurations_def getConfigurations_loop_valid)

lemma getConfigurations_invalid:
  "\<forall>x\<in>set pre. valid_row x \<Longrightarrow> \<not> valid_row r \<Longrightarrow>
     getConfigurations u (pre @ r # post) = Inl (row_error u r)"
  by (simp add: getConfigurations_def getConfigurations_loop_invalid)

lemma first_invalid:
  assumes "\<exists>r\<in>set rows. \<not> valid_row r"
  shows "\<exists>pre r post. rows = pre @ r # post \<and> (\<forall>x\<in>set pre. valid_row x) \<and> \<not> valid_row r"
proof -
  from assms obtain pre r post
    where "rows = pre @ r # post" "\<not> valid_row r" "\<forall>x\<in>set pre. \<not> \<not> valid_row x"
    using split_list_first_prop [of rows "\<lambda>r. \<not> valid_row r"] by blast
  then show ?thesis by auto
qed

lemma getConfigurations_Inr_iff:
  "(\<exists>cs. getConfigurations u rows = Inr cs) \<longleftrightarrow> (\<forall>r\<in>set rows. valid_row r)"
proof
  assume "\<exists>cs. getConfigurations u rows = Inr cs"
  then obtain cs where ok: "getConfigurations u rows = Inr cs" ..
  show "\<forall>r\<in>set rows. valid_row r"
  proof (rule ccontr)
    assume "\<not> (\<forall>r\<in>set rows. valid_row r)"
    then have "\<exists>r\<in>set rows. \<not> valid_row r" by blast
    from first_invalid [OF this] obtain pre r post
      where "rows = pre @ r # post" "\<forall>x\<in>set pre. valid_row x" "\<not> valid_row r" by blast
    then have "getConfigurations u rows = Inl (row_error u r)"
      by (simp add: getConfigurations_invalid)
    with ok show False by simp
  qed
next
  assume "\<forall>r\<in>set rows. valid_row r"
  then show "\<exists>cs. getConfigurations u rows = Inr cs"
    by (simp add: getConfigurations_valid)
qed

lemma parse_abc: "parseFloat (JStr ''abc'') = NaN"
  by (simp add: parse_defs)

lemma parse_minus_one: "parseFloat (JStr ''-1'') = Fin (- 1) 0"
  by (simp add: parse_defs)

text \<open>
  C4. Extraction returns a list exactly when every row passes the checks, and then it is
  the list of all the rows' records. Otherwise it returns no list at all but the error
  of the first row that fails, which carries that row's parsed test value and the unit,
  both of them part of the message. A row whose tolerance is \<open>-1\<close> and a row whose
  reference is \<open>abc\<close> make the extraction fail.
\<close>

theorem getConfigurations_all_or_nothing:
  "((\<exists>cs. getConfigurations u rows = Inr cs) \<longleftrightarrow> (\<forall>r\<in>set rows. valid_row r))
   \<and> ((\<forall>r\<in>set rows. valid_row r) \<longrightarrow> getConfigurations u rows = Inr (map extract_row rows))
   \<and> ((\<forall>x\<in>set pre. valid_row x) \<and> \<not> valid_row r \<longrightarrow>
        getConfigurations u (pre @ r # post) = Inl (row_error u r))
   \<and> ((\<exists>r\<in>set rows. \<not> valid_row r) \<longrightarrow>
        (\<exists>r\<in>set rows. \<not> valid_row r \<and> getConfigurations u rows = Inl (row_error u r)))
   \<and> (\<exists>p. error_message (row_error u r) =
          p @ Number_toString (parseFloat (attr (testValue r))) @ '' '' @ js_String u)
   \<and> (r \<in> set rows \<and> (toleranceInput r = ''-1'' \<or> referenceInput r = ''abc'') \<longrightarrow>
        (\<exists>e. getConfigurations u rows = Inl e))"
proof -
  have a: "(\<exists>r\<in>set rows. \<not> valid_row r \<and> getConfigurations u rows = Inl (row_error u r))"
    if "\<exists>r\<in>set rows. \<not> valid_row r"
  proof -
    from first_invalid [OF that] obtain pre r post
      where *: "rows = pre @ r # post" "\<forall>x\<in>set pre. valid_row x" "\<not> valid_row r" by blast
    then have "getConfigurations u rows = Inl (row_error u r)"
      by (simp add: getConfigurations_invalid)
    with * show ?thesis by auto
  qed
  have b: "\<exists>p. error_message (row_error u r) =
          p @ Number_toString (parseFloat (attr (testValue r))) @ '' '' @ js_String u"
    by (simp add: error_message_def row_error_def)
  have c: "\<exists>e. getConfigurations u rows = Inl e"
    if "r \<in> set rows \<and> (toleranceInput r = ''-1'' \<or> referenceInput r = ''abc'')"
  proof -
    from that have "\<not> valid_row r"
      by (auto simp: valid_row_def parse_abc parse_minus_one isNaN_def scale_def)
    with that have "\<exists>r\<in>set rows. \<not> valid_row r" by blast
    from a [OF this] show ?thesis by blast
  qed
  from a b c getConfigurations_Inr_iff [of u rows] getConfigurations_valid [of rows u]
    getConfigurations_invalid [of pre r u post]
  show ?thesis by blast
qed

theorem getConfigurations_all_or_nothing_witness:
  "getConfigurations (JStr ''V'') [row_V10, row_V10\<lparr>toleranceInput := ''-1''\<rparr>, row_V10]
     = Inl (TolerancePositive (Fin 10 0) (JStr ''V''))
   \<and> getConfigurations (JStr ''V'') [row_V10\<lparr>testValue := Some ''2.5'', referenceInput := ''abc''\<rparr>]
     = Inl (InvalidValues (Fin 25 (- 1)) (JStr ''V''))
   \<and> getConfigurations (JStr ''V'') [row_V10] =
       Inr [\<lparr>test_value = Fin 10 0, range_setting = Some ''N/A'', io_type = Some ''V'',
             range_input = ''N/A'', reference = Fin 0 0, tolerance = Fin 1 (- 1)\<rparr>]"
proof -
  have v: "valid_row row_V10"
    by (simp add: valid_row_def row_V10_def parse_defs isNaN_def scale_def)
  have n1: "\<not> valid_row (row_V10\<lparr>toleranceInput := ''-1''\<rparr>)"
    by (simp add: valid_row_def row_V10_def parse_defs isNaN_def scale_def)
  have n2: "\<not> valid_row (row_V10\<lparr>testValue := Some ''2.5'', referenceInput := ''abc''\<rparr>)"
    by (simp add: valid_row_def row_V10_def parse_defs isNaN_def scale_def)
  from v n1 getConfigurations_all_or_nothing [where pre = "[row_V10]"
      and r = "row_V10\<lparr>toleranceInput := ''-1''\<rparr>" and post = "[row_V10]" and rows = "[]"
      and u = "JStr ''V''"]
  have a: "getConfigurations (JStr ''V'') [row_V10, row_V10\<lparr>toleranceInput := ''-1''\<rparr>, row_V10]
     = Inl (row_error (JStr ''V'') (row_V10\<lparr>toleranceInput := ''-1''\<rparr>))"
    by simp
  from n2 getConfigurations_all_or_nothing [where pre = "[]"
      and r = "row_V10\<lparr>testValue := Some ''2.5'', referenceInput := ''abc''\<rparr>" and post = "[]"
      and rows = "[]" and u = "JStr ''V''"]
  have b: "getConfigurations (JStr ''V'') [row_V10\<lparr>testValue := Some ''2.5'', referenceInput := ''abc''\<rparr>]
     = Inl (row_error (JStr ''V'') (row_V10\<lparr>testValue := Some ''2.5'', referenceInput := ''abc''\<rparr>))"
    by simp
  from v getConfigurations_all_or_nothing [where rows = "[row_V10]" and pre = "[]" and r = row_V10
      and post = "[]" and u = "JStr ''V''"]
  have c: "getConfigurations (JStr ''V'') [row_V10] = Inr (map extract_row [row_V10])"
    by simp
  show ?thesis
    unfolding a b c
    by (simp add: row_error_def extract_row_def row_V10_def parse_defs isNaN_def trim_def)
qed

lemma num_sub_NaN_right: "num_sub x NaN = NaN"
  by (cases x) simp_all

lemma parseFloat_NaN: "parseFloat (JNum NaN) = NaN"
  by (simp add: parse_defs show_defs)

lemma parseFloat_null: "parseFloat JNull = NaN"
  by (simp add: parse_defs)

lemma testValueMatch_NaN:
  "parseFloat (json_test_value c) = NaN \<Longrightarrow> \<not> testValueMatch c r"
  by (simp add: testValueMatch_def num_sub_NaN_right Math_abs_def)

text \<open>
  C10. The test value is parsed and stored, never checked: when every row passes the two
  checks on reference and tolerance, the extraction returns one record per row, whose
  \<open>test_value\<close> is the parsed \<^verbatim>\<open>data-test-value\<close>, also when that is \<open>NaN\<close>. The entry
  saved for a record whose test value is \<open>NaN\<close> fails the test-value comparison with every
  row, both as \<^verbatim>\<open>saveConfig\<close> builds it and as it is read back from JSON.
\<close>

theorem getConfigurations_keeps_NaN_test_value:
  "((\<forall>r\<in>set rows. valid_row r) \<longrightarrow>
      getConfigurations u rows = Inr (map extract_row rows)
      \<and> (\<forall>i<length rows.
            test_value (map extract_row rows ! i) = parseFloat (attr (testValue (rows ! i)))))
   \<and> (isNaN (test_value c) \<longrightarrow>
        \<not> testValueMatch (save_entry c) r \<and> \<not> testValueMatch (json_entry (save_entry c)) r
        \<and> \<not> matches (save_entry c) r \<and> \<not> matches (json_entry (save_entry c)) r)"
proof -
  have a: "\<not> testValueMatch (save_entry c) r \<and> \<not> testValueMatch (json_entry (save_entry c)) r"
    if "isNaN (test_value c)"
  proof -
    from that have "parseFloat (json_test_value (save_entry c)) = NaN"
      by (simp add: save_entry_def isNaN_def parseFloat_NaN)
    moreover from that have "parseFloat (json_test_value (json_entry (save_entry c))) = NaN"
      by (simp add: save_entry_def json_entry_def json_value_def is_finite_def isNaN_def
            parseFloat_null)
    ultimately show ?thesis by (simp add: testValueMatch_NaN)
  qed
  have b: "\<forall>i<length rows.
            test_value (map extract_row rows ! i) = parseFloat (attr (testValue (rows ! i)))"
    by (simp add: extract_row_def)
  from a b getConfigurations_valid [of rows u] show ?thesis
    by (simp add: matches_def)
qed

theorem getConfigurations_keeps_NaN_test_value_witness:
  "getConfigurations (JStr ''V'') [row_V10\<lparr>testValue := Some ''abc''\<rparr>] =
       Inr [\<lparr>test_value = NaN, range_setting = Some ''N/A'', io_type = Some ''V'',
             range_input = ''N/A'', reference = Fin 0 0, tolerance = Fin 1 (- 1)\<rparr>]
   \<and> \<not> matches
         (save_entry \<lparr>test_value = NaN, range_setting = Some ''N/A'', io_type = Some ''V'',
             range_input = ''N/A'', reference = Fin 0 0, tolerance = Fin 1 (- 1)\<rparr>)
         (row_V10\<lparr>testValue := Some ''abc''\<rparr>)"
proof -
  let ?r = "row_V10\<lparr>testValue := Some ''abc''\<rparr>"
  let ?c = "\<lparr>test_value = NaN, range_setting = Some ''N/A'', io_type = Some ''V'',
             range_input = ''N/A'', reference = Fin 0 0, tolerance = Fin 1 (- 1)\<rparr>"
  have v: "\<forall>r\<in>set [?r]. valid_row r"
    by (simp add: valid_row_def row_V10_def parse_defs isNaN_def scale_def)
  have n: "isNaN (test_value ?c)"
    by (simp add: isNaN_def)
  from v n getConfigurations_keeps_NaN_test_value [where rows = "[?r]" and u = "JStr ''V''"
      and c = ?c and r = ?r]
  have "getConfigurations (JStr ''V'') [?r] = Inr (map extract_row [?r])
      \<and> \<not> matches (save_entry ?c) ?r"
    by blast
  then show ?thesis
    by (simp add: extract_row_def row_V10_def parse_defs trim_def)
qed

section \<open>The saved document\<close>

text \<open>
  C7. In the document that \<^verbatim>\<open>saveConfig\<close> builds, every entry carries the reference and
  the tolerance of its record as strings (their \<^verbatim>\<open>toString()\<close>), \<^verbatim>\<open>null\<close> as range
  setting when the record's range setting is the sentinel \<open>N/A\<close> (the string \<open>N/A\<close> is
  never written) and the record's range setting otherwise, and the record's test value,
  I/O type and range input as they are.
\<close>

theorem saveConfig_entries:
  "(saveConfig u rows = Inr d \<longrightarrow>
      (\<exists>cs. getConfigurations u rows = Inr cs \<and> unit d = u
         \<and> configurations d = Some (map save_entry cs)))
   \<and> json_reference (save_entry c) = JStr (Number_toString (reference c))
   \<and> json_tolerance (save_entry c) = JStr (Number_toString (tolerance c))
   \<and> json_range_setting (save_entry c) =
       (if range_setting c = Some ''N/A'' then JNull else attr (range_setting c))
   \<and> json_range_setting (save_entry c) \<noteq> JStr ''N/A''
   \<and> json_test_value (save_entry c) = JNum (test_value c)
   \<and> json_io_type (save_entry c) = attr (io_type c)
   \<and> json_range_input (save_entry c) = JStr (range_input c)"
proof -
  have "saveConfig u rows = Inr d \<longrightarrow>
      (\<exists>cs. getConfigurations u rows = Inr cs \<and> unit d = u
         \<and> configurations d = Some (map save_entry cs))"
    by (auto simp: saveConfig_def split: sum.splits)
  moreover have "json_range_setting (save_entry c) \<noteq> JStr ''N/A''"
    by (cases "range_setting c") (simp_all add: save_entry_def attr_def)
  ultimately show ?thesis by (simp add: save_entry_def)
qed

theorem saveConfig_entries_witness:
  "saveConfig (JStr ''V'') [row_V10\<lparr>referenceInput := ''5.0''\<rparr>] =
     Inr \<lparr>unit = JStr ''V'',
          configurations = Some [\<lparr>json_test_value = JNum (Fin 10 0), json_range_setting = JNull,
            json_io_type = JStr ''V'', json_range_input = JStr ''N/A'',
            json_reference = JStr ''5'', json_tolerance = JStr ''0.1''\<rparr>]\<rparr>"
proof -
  let ?r = "row_V10\<lparr>referenceInput := ''5.0''\<rparr>"
  have v: "\<forall>r\<in>set [?r]. valid_row r"
    by (simp add: valid_row_def row_V10_def parse_defs isNaN_def scale_def)
  then have g: "getConfigurations (JStr ''V'') [?r] = Inr (map extract_row [?r])"
    by (rule getConfigurations_valid)
  then obtain d where d: "saveConfig (JStr ''V'') [?r] = Inr d"
    by (simp add: saveConfig_def)
  with saveConfig_entries [of "JStr ''V''" "[?r]" d]
  obtain cs where "getConfigurations (JStr ''V'') [?r] = Inr cs" "unit d = JStr ''V''"
      "configurations d = Some (map save_entry cs)"
    by blast
  with g have "unit d = JStr ''V''" "configurations d = Some (map save_entry (map extract_row [?r]))"
    by simp_all
  then have "d = \<lparr>unit = JStr ''V'',
      configurations = Some (map save_entry (map extract_row [?r]))\<rparr>"
    by simp
  with d show ?thesis
    by (simp add: save_entry_def extract_row_def row_V10_def parse_defs show_defs trim_def)
qed

section \<open>Reading back what \<^verbatim>\<open>toString\<close> writes\<close>





lemma digits_of_nat_nonempty: "digits_of_nat n \<noteq> []"
  by (simp add: digits_of_nat.simps [of n])

























section \<open>The round trip through a saved file\<close>


















section \<open>Documents of any shape\<close>














end
